theory Spec2Isabelle
  imports Main "HOL-Library.Sublist"
begin

section \<open>The FindCare map feed (server.js)\<close>

text \<open>
  A shallow embedding of the request pipeline of \<^verbatim>\<open>server.js\<close>: the helpers
  \<^verbatim>\<open>isZip\<close>, \<^verbatim>\<open>parseLocation\<close> and \<^verbatim>\<open>esc\<close>, and the handler of
  \<^verbatim>\<open>GET /map_feed\<close> (the row limit, the bound query parameters, the feed items and
  the two response envelopes).

  A JavaScript string is a \<^typ>\<open>string\<close>: the list of its code units, each below 256.
  A value that is a string, \<^verbatim>\<open>null\<close> or \<^verbatim>\<open>undefined\<close> is a \<^typ>\<open>string option\<close>,
  with \<^term>\<open>None\<close> for both \<^verbatim>\<open>null\<close> and \<^verbatim>\<open>undefined\<close>: the source only ever
  tests such a value for truthiness.

  The handler is given twice. \<open>map_feed\<close> is the handler on a query whose values are all
  text or absent, which is the query the specification speaks of. \<open>get_map_feed\<close> is the
  handler on any query the parser of Express can build, where a value may also be an array
  or an object and a call of the \<^verbatim>\<open>try\<close> block can throw before the data store is
  asked. On a query of texts the two agree.
\<close>

subsection \<open>Built-ins of the language\<close>

text \<open>\<^verbatim>\<open>x || null\<close> on a string or null: the empty string is falsy.\<close>

definition or_null :: "string option \<Rightarrow> string option" where
  "or_null x = (case x of None \<Rightarrow> None | Some s \<Rightarrow> if s = [] then None else Some s)"

text \<open>\<^verbatim>\<open>x || d\<close> with a string literal \<open>d\<close>.\<close>

definition or_str :: "string option \<Rightarrow> string \<Rightarrow> string" where
  "or_str x d = (case x of None \<Rightarrow> d | Some s \<Rightarrow> if s = [] then d else s)"

text \<open>
  White space and line terminators among the code units below 256: TAB, LF, VT, FF, CR,
  SP and NBSP. \<^verbatim>\<open>String.prototype.trim\<close> and \<^verbatim>\<open>parseInt\<close> strip exactly these.
\<close>

definition isWhiteSpace :: "char \<Rightarrow> bool" where
  "isWhiteSpace c = ((of_char c :: nat) \<in> {9, 10, 11, 12, 13, 32, 160})"

definition trim :: "string \<Rightarrow> string" where
  "trim s = rev (dropWhile isWhiteSpace (rev (dropWhile isWhiteSpace s)))"

text \<open>The class \<^verbatim>\<open>\d\<close> of a regular expression without the unicode flag: 0 to 9.\<close>

definition isDigit :: "char \<Rightarrow> bool" where
  "isDigit c = (48 \<le> (of_char c :: nat) \<and> (of_char c :: nat) \<le> 57)"

text \<open>
  \<^verbatim>\<open>String.prototype.toUpperCase\<close>, one code unit at a time. The sharp s (223) becomes
  two letters. Two code units (181 and 255) have upper-case forms beyond 255, which are
  no code units of this model; they are left as they are.
\<close>

definition upperChar :: "char \<Rightarrow> string" where
  "upperChar c =
     (let n = (of_char c :: nat) in
      if 97 \<le> n \<and> n \<le> 122 then [char_of (n - 32)]
      else if n = 223 then ''SS''
      else if 224 \<le> n \<and> n \<le> 254 \<and> n \<noteq> 247 then [char_of (n - 32)]
      else [c])"

definition toUpperCase :: "string \<Rightarrow> string" where
  "toUpperCase s = concat (map upperChar s)"

text \<open>
  \<^verbatim>\<open>s.split(sep)\<close> with a separator of one code unit: the pieces between the
  separators, \<^verbatim>\<open>[""]\<close> for the empty string.
\<close>

fun split_on :: "char \<Rightarrow> string \<Rightarrow> string list" where
  "split_on sep [] = [[]]"
| "split_on sep (c # cs) =
     (if c = sep then [] # split_on sep cs
      else (case split_on sep cs of [] \<Rightarrow> [[c]] | p # ps \<Rightarrow> (c # p) # ps))"

text \<open>Reading an array element: \<^verbatim>\<open>undefined\<close> beyond the end.\<close>

definition element :: "string list \<Rightarrow> nat \<Rightarrow> string option" where
  "element xs i = (if i < length xs then Some (xs ! i) else None)"

text \<open>\<^verbatim>\<open>s.replace(/c/g, t)\<close>: every occurrence of the code unit \<open>c\<close> becomes \<open>t\<close>.\<close>

definition replace_all :: "char \<Rightarrow> string \<Rightarrow> string \<Rightarrow> string" where
  "replace_all c t s = concat (map (\<lambda>d. if d = c then t else [d]) s)"

text \<open>\<^verbatim>\<open>xs.join(sep)\<close>.\<close>

fun join :: "string \<Rightarrow> string list \<Rightarrow> string" where
  "join sep [] = []"
| "join sep [x] = x"
| "join sep (x # y # ys) = x @ sep @ join sep (y # ys)"

text \<open>The decimal text of a non-negative integer, as a template literal renders it.\<close>

fun decimal :: "nat \<Rightarrow> string" where
  "decimal n =
     (if n < 10 then [char_of (48 + n)]
      else decimal (n div 10) @ [char_of (48 + n mod 10)])"

declare decimal.simps [simp del]

text \<open>
  \<^verbatim>\<open>parseInt(s)\<close> with no radix: leading white space is skipped, a sign is read, the
  prefix \<^verbatim>\<open>0x\<close> or \<^verbatim>\<open>0X\<close> selects radix 16, and the longest run of digits of the
  radix is the value; \<^term>\<open>None\<close> is \<^verbatim>\<open>NaN\<close> (no digit). The value is the exact
  integer: a Number rounds a long run of digits (to Infinity at the end), which no
  comparison with 1 and 200 can tell from the exact value.
\<close>

definition digitValue :: "nat \<Rightarrow> char \<Rightarrow> nat option" where
  "digitValue R c =
     (let n = (of_char c :: nat);
          v = (if 48 \<le> n \<and> n \<le> 57 then Some (n - 48)
               else if 97 \<le> n \<and> n \<le> 122 then Some (n - 87)
               else if 65 \<le> n \<and> n \<le> 90 then Some (n - 55)
               else None)
      in case v of None \<Rightarrow> None | Some d \<Rightarrow> if d < R then Some d else None)"

definition radixValue :: "nat \<Rightarrow> string \<Rightarrow> nat" where
  "radixValue R Z =
     foldl (\<lambda>a c. a * R + (case digitValue R c of None \<Rightarrow> 0 | Some d \<Rightarrow> d)) 0 Z"

definition parseInt :: "string \<Rightarrow> int option" where
  "parseInt s =
     (let S = dropWhile isWhiteSpace s;
          neg = (case S of [] \<Rightarrow> False | c # _ \<Rightarrow> c = CHR ''-'');
          S1 = (case S of [] \<Rightarrow> []
                | c # cs \<Rightarrow> if c = CHR ''+'' \<or> c = CHR ''-'' then cs else S);
          hex = (take 2 S1 = ''0x'' \<or> take 2 S1 = ''0X'');
          R = (if hex then 16 else 10);
          S2 = (if hex then drop 2 S1 else S1);
          Z = takeWhile (\<lambda>c. digitValue R c \<noteq> None) S2
      in if Z = [] then None
         else Some ((if neg then - 1 else 1) * int (radixValue R Z)))"

subsection \<open>Helper functions\<close>

text \<open>
  \<^verbatim>\<open>/^\d{5}(-\d{4})?$/.test(t)\<close>: five digits, then nothing or a dash and four digits.
\<close>

definition zip_regex :: "string \<Rightarrow> bool" where
  "zip_regex t =
     (5 \<le> length t \<and> list_all isDigit (take 5 t) \<and>
      (case drop 5 t of
         [] \<Rightarrow> True
       | c # r \<Rightarrow> c = CHR ''-'' \<and> length r = 4 \<and> list_all isDigit r))"

definition isZip :: "string option \<Rightarrow> bool" where
  "isZip s = zip_regex (trim (or_str s []))"

text \<open>
  The three objects \<^verbatim>\<open>parseLocation\<close> returns: \<^verbatim>\<open>{}\<close>, \<^verbatim>\<open>{ zip5 }\<close> and
  \<^verbatim>\<open>{ city, state }\<close>, whose two fields are a string or \<^verbatim>\<open>null\<close>.
\<close>

datatype ParsedLocation =
    NoLocation
  | ZipLocation string
  | CityState "string option" "string option"

definition parseLocation :: "string option \<Rightarrow> ParsedLocation" where
  "parseLocation input =
     (case input of
        None \<Rightarrow> NoLocation
      | Some s \<Rightarrow>
          if s = [] then NoLocation
          else
            let raw = trim s in
            if isZip (Some raw) then ZipLocation (take 5 raw)
            else
              let parts = map trim (split_on CHR '','' raw);
                  cityPart = element parts 0;
                  statePart = element parts 1;
                  city = or_null cityPart;
                  state = or_null (Some (take 2 (toUpperCase (or_str statePart []))))
              in CityState city state)"

text \<open>
  The destructuring \<^verbatim>\<open>const { zip5, city, state } = parseLocation(location)\<close>: a field
  the object does not have reads as \<^verbatim>\<open>undefined\<close>.
\<close>

fun zip5_of :: "ParsedLocation \<Rightarrow> string option" where
  "zip5_of (ZipLocation z) = Some z"
| "zip5_of _ = None"

fun city_of :: "ParsedLocation \<Rightarrow> string option" where
  "city_of (CityState c s) = c"
| "city_of _ = None"

fun state_of :: "ParsedLocation \<Rightarrow> string option" where
  "state_of (CityState c s) = s"
| "state_of _ = None"

definition esc :: "string option \<Rightarrow> string" where
  "esc s =
     replace_all CHR 0x27 ''&#39;''
       (replace_all CHR 0x22 ''&quot;''
          (replace_all CHR ''>'' ''&gt;''
             (replace_all CHR ''<'' ''&lt;''
                (replace_all CHR ''&'' ''&amp;'' (or_str s [])))))"

subsection \<open>The handler of /map_feed\<close>

text \<open>The query string of the request: \<^verbatim>\<open>const { q, category, location, limit } = req.query\<close>.\<close>

record RawQuery =
  query_q :: "string option"
  query_category :: "string option"
  query_location :: "string option"
  query_limit :: "string option"

text \<open>
  The row limit. The destructuring default \<^verbatim>\<open>limit = "20"\<close> applies to an absent
  limit only; \<^verbatim>\<open>parseInt(limit) || 20\<close> takes 20 for \<^verbatim>\<open>NaN\<close> and for zero, the two falsy
  numbers.
\<close>

definition lim_of :: "string option \<Rightarrow> int" where
  "lim_of limit =
     (let parsed = parseInt (case limit of None \<Rightarrow> ''20'' | Some s \<Rightarrow> s);
          n = (case parsed of None \<Rightarrow> 20 | Some v \<Rightarrow> if v = 0 then 20 else v)
      in max 1 (min n 200))"

text \<open>
  The parameters bound by \<^verbatim>\<open>request.input\<close>, one field for each of \<^verbatim>\<open>@limit\<close>,
  \<^verbatim>\<open>@category\<close>, \<^verbatim>\<open>@q\<close>, \<^verbatim>\<open>@zip5\<close>, \<^verbatim>\<open>@city\<close> and \<^verbatim>\<open>@state\<close>.
\<close>

record FilterSpec =
  p_limit :: int
  p_category :: "string option"
  p_q :: "string option"
  p_zip5 :: "string option"
  p_city :: "string option"
  p_state :: "string option"

definition bindings :: "RawQuery \<Rightarrow> FilterSpec" where
  "bindings rq =
     (let lim = lim_of (query_limit rq);
          loc = parseLocation (query_location rq)
      in \<lparr> p_limit = lim,
           p_category = or_null (query_category rq),
           p_q = (case or_null (query_q rq) of
                    None \<Rightarrow> None
                  | Some t \<Rightarrow> Some (''%'' @ t @ ''%'')),
           p_zip5 = or_null (zip5_of loc),
           p_city = or_null (city_of loc),
           p_state = or_null (state_of loc) \<rparr>)"

text \<open>
  A row of the record set. The text columns are a string or \<^verbatim>\<open>null\<close>. The two
  coordinates are carried as the text \<^verbatim>\<open>String(r.Latitude)\<close> and
  \<^verbatim>\<open>String(r.Longitude)\<close> of the column's value.
\<close>

record ProviderRecord =
  Category :: "string option"
  Provider_Organization_Name :: "string option"
  Provider_Practice_City :: "string option"
  Provider_Practice_State :: "string option"
  Provider_Practice_Zip :: "string option"
  Full_Address :: "string option"
  Latitude :: string
  Longitude :: string
  Healthcare_Provider_Taxonomy_Code_1 :: "string option"

record FeedItem =
  item_id :: nat
  title :: string
  summary :: string
  address :: string
  latitude :: string
  longitude :: string
  item_type :: string
  subtype :: string
  pinIconUrl :: string
  pinIconColor :: string
  pinIconWidth :: nat
  pinIconHeight :: nat
  url :: string
  thumbnail :: string
  smallThumbnail :: string
  largeThumbnail :: string
  content :: string

definition title_of :: "ProviderRecord \<Rightarrow> string" where
  "title_of r = or_str (Provider_Organization_Name r) ''Unnamed Facility''"

text \<open>\<^verbatim>\<open>[city, state].filter(Boolean).join(", ")\<close>.\<close>

definition citySt_of :: "ProviderRecord \<Rightarrow> string" where
  "citySt_of r =
     join '', ''
       (List.map_filter or_null [Provider_Practice_City r, Provider_Practice_State r])"

definition summary_of :: "ProviderRecord \<Rightarrow> string" where
  "summary_of r =
     or_str (Category r) ''Healthcare Facility'' @
     (if citySt_of r \<noteq> [] then '' in '' @ citySt_of r else [])"

definition content_of :: "ProviderRecord \<Rightarrow> nat \<Rightarrow> string" where
  "content_of r idx =
     ''<div><strong>'' @ esc (Some (title_of r)) @ ''</strong><br>'' @
     esc (Some (or_str (Category r) [])) @ '' - '' @ esc (Some (citySt_of r)) @
     ''<br><a href='' @ [CHR 0x22] @ ''https://findcare.dev/facility/'' @
     decimal (idx + 1) @ [CHR 0x22] @ '' target='' @ [CHR 0x22] @ ''_blank'' @
     [CHR 0x22] @ ''>View Details</a></div>''"

text \<open>The callback of \<^verbatim>\<open>.map((r, idx) => ...)\<close>.\<close>

definition item_of :: "ProviderRecord \<Rightarrow> nat \<Rightarrow> FeedItem" where
  "item_of r idx =
     \<lparr> item_id = idx + 1,
       title = title_of r,
       summary = summary_of r,
       address = or_str (Full_Address r) [],
       latitude = trim (Latitude r),
       longitude = trim (Longitude r),
       item_type = ''maps'',
       subtype = ''custom'',
       pinIconUrl = ''https://fcare.io/files/findcare_map_icon_red.png'',
       pinIconColor = ''#0074D9'',
       pinIconWidth = 150,
       pinIconHeight = 300,
       url = ''https://findcare.dev/facility/'' @ decimal (idx + 1),
       thumbnail = ''https://findcare.dev/icons/default.png'',
       smallThumbnail = ''https://findcare.dev/icons/default.png'',
       largeThumbnail = ''https://findcare.dev/icons/default.png'',
       content = content_of r idx \<rparr>"

text \<open>
  \<^verbatim>\<open>(result.recordset || []).map(...)\<close>: the callback receives each row with its index,
  counted from 0.
\<close>

definition items_of :: "ProviderRecord list option \<Rightarrow> FeedItem list" where
  "items_of recordset =
     (let rows = (case recordset of None \<Rightarrow> [] | Some rs \<Rightarrow> rs)
      in map (\<lambda>(idx, r). item_of r idx) (enumerate 0 rows))"

text \<open>
  The two bodies the handler sends: the feed, and the error envelope of the
  \<^verbatim>\<open>catch\<close> block, which has no other field than \<^verbatim>\<open>stat\<close> and \<^verbatim>\<open>message\<close>.
\<close>

datatype body =
    Feed (items: "FeedItem list") (next_page: "string option") (generated_in: string)
      (stat: string)
  | Failure (stat: string) (message: string)

text \<open>An exception that reaches the \<^verbatim>\<open>catch\<close> block, read through \<^verbatim>\<open>err.message\<close>.\<close>

record err =
  err_message :: "string option"

text \<open>
  The data store, as the handler meets it: \<^verbatim>\<open>await poolPromise\<close> rejects or gives a
  pool, and \<^verbatim>\<open>await request.query(...)\<close> on the bound parameters rejects or gives a
  result with its \<^verbatim>\<open>recordset\<close>.
\<close>

type_synonym pool = "FilterSpec \<Rightarrow> err + ProviderRecord list option"

definition failure :: "err \<Rightarrow> nat \<times> body" where
  "failure e = (500, Failure ''error'' (or_str (err_message e) ''Internal server error''))"

text \<open>
  The handler on a query whose values are all text or absent: the HTTP status and the JSON
  body of the response. On such a query no call of the \<^verbatim>\<open>try\<close> block throws, and only
  the pool and the query can fail.
\<close>

definition map_feed :: "RawQuery \<Rightarrow> err + pool \<Rightarrow> nat \<times> body" where
  "map_feed rq poolPromise =
     (let params = bindings rq in
      case poolPromise of
        Inl e \<Rightarrow> failure e
      | Inr request \<Rightarrow>
          (case request params of
             Inl e \<Rightarrow> failure e
           | Inr recordset \<Rightarrow>
               (200, Feed (items_of recordset) None ''0.01s'' ''ok'')))"


subsection \<open>The handler on any query\<close>

text \<open>
  A value of \<^verbatim>\<open>req.query\<close> as the query parser of Express builds it: a text, an array
  (a key given more than once), or an object (a key with a name in brackets). The elements
  of an array and the values of an object are such values again.
\<close>

datatype qvalue =
    QText string
  | QArray "qvalue list"
  | QObject "(string \<times> qvalue) list"

text \<open>
  \<^verbatim>\<open>String(v)\<close>, as \<^verbatim>\<open>parseInt\<close> and a template literal apply it. An array joins the
  texts of its elements with commas; an object is \<^verbatim>\<open>[object Object]\<close>. The conversion
  throws a TypeError on an object that has a key \<^verbatim>\<open>toString\<close> of its own (the extended
  parser of Express 4 lets such a key through): the value under the key is no function,
  and \<^verbatim>\<open>valueOf\<close> gives no primitive either. It throws on an array that holds such an
  object as well.
\<close>

fun text_of :: "qvalue \<Rightarrow> string" where
  "text_of (QText s) = s"
| "text_of (QArray vs) = join '','' (map text_of vs)"
| "text_of (QObject kvs) = ''[object Object]''"

fun converts :: "qvalue \<Rightarrow> bool" where
  "converts (QText s) = True"
| "converts (QArray vs) = list_all converts vs"
| "converts (QObject kvs) = (''toString'' \<notin> set (map fst kvs))"

definition ToString :: "qvalue \<Rightarrow> err + string" where
  "ToString v =
     (if converts v then Inr (text_of v)
      else Inl \<lparr> err_message = Some ''Cannot convert object to primitive value'' \<rparr>)"

text \<open>\<^verbatim>\<open>const { q, category, location, limit } = req.query\<close>, whatever the values.\<close>

record Query =
  req_q :: "qvalue option"
  req_category :: "qvalue option"
  req_location :: "qvalue option"
  req_limit :: "qvalue option"

text \<open>\<^verbatim>\<open>x || null\<close>: the empty text is the only falsy value; arrays and objects are truthy.\<close>

definition truthy :: "qvalue option \<Rightarrow> qvalue option" where
  "truthy x = (case x of None \<Rightarrow> None | Some v \<Rightarrow> if v = QText [] then None else Some v)"

text \<open>The row limit: \<^verbatim>\<open>parseInt\<close> converts a limit that is no text to text first.\<close>

definition lim_of_any :: "qvalue option \<Rightarrow> err + int" where
  "lim_of_any limit =
     (case limit of
        None \<Rightarrow> Inr (lim_of None)
      | Some v \<Rightarrow> (case ToString v of Inl e \<Rightarrow> Inl e | Inr s \<Rightarrow> Inr (lim_of (Some s))))"

text \<open>
  \<^verbatim>\<open>parseLocation(location)\<close>: an array or an object is truthy and has no method
  \<^verbatim>\<open>trim\<close>, so \<^verbatim>\<open>input.trim()\<close> throws a TypeError.
\<close>

definition parseLocation_any :: "qvalue option \<Rightarrow> err + ParsedLocation" where
  "parseLocation_any input =
     (case input of
        None \<Rightarrow> Inr (parseLocation None)
      | Some (QText s) \<Rightarrow> Inr (parseLocation (Some s))
      | Some _ \<Rightarrow> Inl \<lparr> err_message = Some ''input.trim is not a function'' \<rparr>)"

text \<open>
  The values passed to the six calls of \<^verbatim>\<open>request.input\<close>. The category is passed as it
  came, so it may be an array or an object; the pattern of \<^verbatim>\<open>@q\<close> converts \<^verbatim>\<open>q\<close> to
  text, and that can throw.
\<close>

record Inputs =
  in_limit :: int
  in_category :: "qvalue option"
  in_q :: "string option"
  in_zip5 :: "string option"
  in_city :: "string option"
  in_state :: "string option"

definition inputs :: "Query \<Rightarrow> int \<Rightarrow> ParsedLocation \<Rightarrow> err + Inputs" where
  "inputs rq lim loc =
     (case (case truthy (req_q rq) of
              None \<Rightarrow> Inr None
            | Some v \<Rightarrow>
                (case ToString v of Inl e \<Rightarrow> Inl e | Inr s \<Rightarrow> Inr (Some (''%'' @ s @ ''%'')))) of
        Inl e \<Rightarrow> Inl e
      | Inr pattern \<Rightarrow>
          Inr \<lparr> in_limit = lim,
                in_category = truthy (req_category rq),
                in_q = pattern,
                in_zip5 = or_null (zip5_of loc),
                in_city = or_null (city_of loc),
                in_state = or_null (state_of loc) \<rparr>)"

text \<open>
  The handler on any query, in the order of the \<^verbatim>\<open>try\<close> block: the limit, the location,
  the pool, the inputs, the query, the items. Whatever is thrown or rejected on the way
  reaches the \<^verbatim>\<open>catch\<close> block. The function of the pool stands for what the driver does
  with the values bound and the query text: it rejects or gives a result.
\<close>

definition get_map_feed ::
  "Query \<Rightarrow> err + (Inputs \<Rightarrow> err + ProviderRecord list option) \<Rightarrow> nat \<times> body" where
  "get_map_feed rq poolPromise =
     (case lim_of_any (req_limit rq) of
        Inl e \<Rightarrow> failure e
      | Inr lim \<Rightarrow>
     (case parseLocation_any (req_location rq) of
        Inl e \<Rightarrow> failure e
      | Inr loc \<Rightarrow>
     (case poolPromise of
        Inl e \<Rightarrow> failure e
      | Inr request \<Rightarrow>
     (case inputs rq lim loc of
        Inl e \<Rightarrow> failure e
      | Inr params \<Rightarrow>
     (case request params of
        Inl e \<Rightarrow> failure e
      | Inr recordset \<Rightarrow>
          (200, Feed (items_of recordset) None ''0.01s'' ''ok''))))))"

text \<open>A query of texts as a query of any values, and its bound parameters as inputs.\<close>

definition text_query :: "RawQuery \<Rightarrow> Query" where
  "text_query rq =
     \<lparr> req_q = map_option QText (query_q rq),
       req_category = map_option QText (query_category rq),
       req_location = map_option QText (query_location rq),
       req_limit = map_option QText (query_limit rq) \<rparr>"

definition text_inputs :: "FilterSpec \<Rightarrow> Inputs" where
  "text_inputs fs =
     \<lparr> in_limit = p_limit fs,
       in_category = map_option QText (p_category fs),
       in_q = p_q fs,
       in_zip5 = p_zip5 fs,
       in_city = p_city fs,
       in_state = p_state fs \<rparr>"

subsection \<open>The words of the specification\<close>

text \<open>
  The specification splits a location on its first comma into a left part and a right
  part; the right part is absent when there is no comma.
\<close>

definition before_comma :: "string \<Rightarrow> string" where
  "before_comma s = takeWhile (\<lambda>c. c \<noteq> CHR '','') s"

definition after_comma :: "string \<Rightarrow> string option" where
  "after_comma s =
     (case dropWhile (\<lambda>c. c \<noteq> CHR '','') s of [] \<Rightarrow> None | comma # rest \<Rightarrow> Some rest)"

text \<open>
  The state as the specification words it: the right part, upper-cased and cut to its
  first two characters, null if empty or absent.
\<close>

definition spec_state :: "string \<Rightarrow> string option" where
  "spec_state raw =
     (case after_comma raw of
        None \<Rightarrow> None
      | Some right \<Rightarrow> or_null (Some (take 2 (toUpperCase right))))"

text \<open>The lower-case letters a to z.\<close>

definition isLowerCase :: "char \<Rightarrow> bool" where
  "isLowerCase c = (97 \<le> (of_char c :: nat) \<and> (of_char c :: nat) \<le> 122)"

text \<open>
  The entity the specification asks for each of the five characters, all at once; any
  other character stands for itself.
\<close>

definition entity :: "char \<Rightarrow> string" where
  "entity c =
     (if c = CHR ''&'' then ''&amp;''
      else if c = CHR ''<'' then ''&lt;''
      else if c = CHR ''>'' then ''&gt;''
      else if c = CHR 0x22 then ''&quot;''
      else if c = CHR 0x27 then ''&#39;''
      else [c])"

text \<open>The characters that open or close a tag or an attribute value.\<close>

definition isMarkup :: "char \<Rightarrow> bool" where
  "isMarkup c = (c = CHR ''<'' \<or> c = CHR ''>'' \<or> c = CHR 0x22 \<or> c = CHR 0x27)"

section \<open>Properties\<close>

subsection \<open>The row limit\<close>

text \<open>
  Claim C1, as the code has it. For every raw limit the bound limit is an integer from 1
  to 200: a limit that parses to no number takes the default 20, and so does a limit that
  parses to zero, since \<^verbatim>\<open>parseInt(limit) || 20\<close> tests the number for truthiness
  before the clamp sees it; every other number is clamped to the range. In particular
  \<^verbatim>\<open>"0"\<close> gives 20, \<^verbatim>\<open>"500"\<close> gives 200 and \<^verbatim>\<open>"abc"\<close> gives 20.
\<close>

theorem lim_of_range:
  "1 \<le> lim_of limit \<and> lim_of limit \<le> 200 \<and>
   lim_of limit =
     (case parseInt (case limit of None \<Rightarrow> ''20'' | Some s \<Rightarrow> s) of
        None \<Rightarrow> 20
      | Some v \<Rightarrow> if v = 0 then 20 else if v < 1 then 1 else if 200 < v then 200 else v) \<and>
   lim_of (Some ''0'') = 20 \<and> lim_of (Some ''500'') = 200 \<and> lim_of (Some ''abc'') = 20"
proof -
  have range: "1 \<le> lim_of limit \<and> lim_of limit \<le> 200"
    by (simp add: lim_of_def Let_def split: option.split)
  have shape: "lim_of limit =
     (case parseInt (case limit of None \<Rightarrow> ''20'' | Some s \<Rightarrow> s) of
        None \<Rightarrow> 20
      | Some v \<Rightarrow> if v = 0 then 20 else if v < 1 then 1 else if 200 < v then 200 else v)"
    by (simp add: lim_of_def Let_def split: option.split)
  have examples:
    "lim_of (Some ''0'') = 20 \<and> lim_of (Some ''500'') = 200 \<and> lim_of (Some ''abc'') = 20"
    by code_simp
  from range shape examples show ?thesis by blast
qed

text \<open>
  Claim C1 as stated has the limit \<^verbatim>\<open>"0"\<close> yield 1. The handler yields 20 there.
\<close>

theorem lim_of_zero_counterexample: "lim_of (Some ''0'') = 20 \<and> lim_of (Some ''0'') \<noteq> 1"
  by code_simp

subsection \<open>The feed items\<close>

lemma map_enumerate_index:
  "map (\<lambda>(idx, r). f idx) (enumerate k rows) = map f [k..<k + length rows]"
proof (induction rows arbitrary: k)
  case Nil
  show ?case by simp
next
  case (Cons x xs)
  have "[k..<k + length (x # xs)] = k # [Suc k..<Suc k + length xs]"
    by (subst upt_rec) simp
  with Cons.IH [of "Suc k"] show ?case by simp
qed

lemma item_id_items_of:
  "map item_id (items_of recordset) =
     map Suc [0..<length (case recordset of None \<Rightarrow> [] | Some rs \<Rightarrow> rs)]"
proof -
  have "map item_id (items_of recordset) =
        map (\<lambda>(idx, r). Suc idx) (enumerate 0 (case recordset of None \<Rightarrow> [] | Some rs \<Rightarrow> rs))"
    by (simp add: items_of_def item_of_def case_prod_unfold)
  then show ?thesis
    by (simp add: map_enumerate_index)
qed

lemma url_items_of:
  "map url (items_of recordset) =
     map (\<lambda>idx. ''https://findcare.dev/facility/'' @ decimal (Suc idx))
       [0..<length (case recordset of None \<Rightarrow> [] | Some rs \<Rightarrow> rs)]"
proof -
  have "map url (items_of recordset) =
        map (\<lambda>(idx, r). ''https://findcare.dev/facility/'' @ decimal (Suc idx))
          (enumerate 0 (case recordset of None \<Rightarrow> [] | Some rs \<Rightarrow> rs))"
    by (simp add: items_of_def item_of_def case_prod_unfold)
  then show ?thesis
    by (simp add: map_enumerate_index)
qed

lemma length_items_of:
  "length (items_of recordset) = length (case recordset of None \<Rightarrow> [] | Some rs \<Rightarrow> rs)"
  by (simp add: items_of_def)

lemma citySt_cases:
  "citySt_of r =
     (case (or_null (Provider_Practice_City r), or_null (Provider_Practice_State r)) of
        (None, None) \<Rightarrow> []
      | (Some c, None) \<Rightarrow> c
      | (None, Some s) \<Rightarrow> s
      | (Some c, Some s) \<Rightarrow> c @ '', '' @ s)"
  by (simp add: citySt_of_def split: option.split)

text \<open>
  Claim C6. The title of an item is the organization name of its row, or the literal
  \<^verbatim>\<open>Unnamed Facility\<close> when the name is null or empty. The summary is the category, or
  \<^verbatim>\<open>Healthcare Facility\<close> when the category is null or empty, followed by \<^verbatim>\<open> in \<close> and the
  city/state text when that text is not empty, and by nothing when it is. The city/state
  text is the city and the state joined by a comma and a space, a null or empty one left
  out together with the separator. A row with the name \<^verbatim>\<open>""\<close>, no category, the city
  Plano and the state TX has the title \<^verbatim>\<open>Unnamed Facility\<close> and the summary
  \<^verbatim>\<open>Healthcare Facility in Plano, TX\<close>.
\<close>

theorem item_title_summary:
  "title (item_of r idx) =
     (case Provider_Organization_Name r of
        None \<Rightarrow> ''Unnamed Facility''
      | Some n \<Rightarrow> if n = [] then ''Unnamed Facility'' else n) \<and>
   summary (item_of r idx) =
     (case Category r of
        None \<Rightarrow> ''Healthcare Facility''
      | Some c \<Rightarrow> if c = [] then ''Healthcare Facility'' else c) @
     (if citySt_of r = [] then [] else '' in '' @ citySt_of r) \<and>
   citySt_of r =
     (case (or_null (Provider_Practice_City r), or_null (Provider_Practice_State r)) of
        (None, None) \<Rightarrow> []
      | (Some c, None) \<Rightarrow> c
      | (None, Some s) \<Rightarrow> s
      | (Some c, Some s) \<Rightarrow> c @ '', '' @ s) \<and>
   title (item_of
     \<lparr> Category = None, Provider_Organization_Name = Some [],
       Provider_Practice_City = Some ''Plano'', Provider_Practice_State = Some ''TX'',
       Provider_Practice_Zip = z, Full_Address = a, Latitude = la, Longitude = lo,
       Healthcare_Provider_Taxonomy_Code_1 = t \<rparr> idx) = ''Unnamed Facility'' \<and>
   summary (item_of
     \<lparr> Category = None, Provider_Organization_Name = Some [],
       Provider_Practice_City = Some ''Plano'', Provider_Practice_State = Some ''TX'',
       Provider_Practice_Zip = z, Full_Address = a, Latitude = la, Longitude = lo,
       Healthcare_Provider_Taxonomy_Code_1 = t \<rparr> idx) = ''Healthcare Facility in Plano, TX''"
proof -
  have t: "title (item_of r idx) =
     (case Provider_Organization_Name r of
        None \<Rightarrow> ''Unnamed Facility''
      | Some n \<Rightarrow> if n = [] then ''Unnamed Facility'' else n)"
    by (simp add: item_of_def title_of_def or_str_def)
  have s: "summary (item_of r idx) =
     (case Category r of
        None \<Rightarrow> ''Healthcare Facility''
      | Some c \<Rightarrow> if c = [] then ''Healthcare Facility'' else c) @
     (if citySt_of r = [] then [] else '' in '' @ citySt_of r)"
    by (simp add: item_of_def summary_of_def or_str_def)
  have e1: "title (item_of
     \<lparr> Category = None, Provider_Organization_Name = Some [],
       Provider_Practice_City = Some ''Plano'', Provider_Practice_State = Some ''TX'',
       Provider_Practice_Zip = z, Full_Address = a, Latitude = la, Longitude = lo,
       Healthcare_Provider_Taxonomy_Code_1 = t \<rparr> idx) = ''Unnamed Facility''"
    by (simp add: item_of_def title_of_def or_str_def)
  have e2: "summary (item_of
     \<lparr> Category = None, Provider_Organization_Name = Some [],
       Provider_Practice_City = Some ''Plano'', Provider_Practice_State = Some ''TX'',
       Provider_Practice_Zip = z, Full_Address = a, Latitude = la, Longitude = lo,
       Healthcare_Provider_Taxonomy_Code_1 = t \<rparr> idx) = ''Healthcare Facility in Plano, TX''"
    by (simp add: item_of_def summary_of_def or_str_def citySt_of_def or_null_def)
  from t s e1 e2 citySt_cases [of r] show ?thesis by blast
qed

subsection \<open>The response\<close>

text \<open>
  Claim C10. Whenever the query gives a record set, whatever the request and the rows,
  the field \<^verbatim>\<open>generated_in\<close> of the body is the literal \<^verbatim>\<open>0.01s\<close>: no time is measured.
\<close>

theorem generated_in_literal:
  "request (bindings rq) = Inr recordset \<Longrightarrow>
   generated_in (snd (map_feed rq (Inr request))) = ''0.01s''"
  by (simp add: map_feed_def)

theorem generated_in_literal_witness:
  "generated_in
     (snd (map_feed
        \<lparr> query_q = None, query_category = None, query_location = Some ''73301'',
          query_limit = Some ''5'' \<rparr>
        (Inr (\<lambda>p. Inr (Some []))))) = ''0.01s''"
  using generated_in_literal
    [of "\<lambda>p. Inr (Some [])"
        "\<lparr> query_q = None, query_category = None, query_location = Some ''73301'',
           query_limit = Some ''5'' \<rparr>"
        "Some []"]
  by simp

subsection \<open>Trimming\<close>

lemma trim_Nil: "trim [] = []"
  by (simp add: trim_def)

lemma trim_ends:
  assumes "trim s \<noteq> []"
  shows "\<not> isWhiteSpace (hd (trim s))" and "\<not> isWhiteSpace (last (trim s))"
proof -
  let ?d = "dropWhile isWhiteSpace s"
  let ?e = "dropWhile isWhiteSpace (rev ?d)"
  from assms have e: "?e \<noteq> []" by (simp add: trim_def)
  have d: "?d \<noteq> []"
  proof
    assume "?d = []"
    then have "?e = []" by (simp only: rev.simps dropWhile.simps)
    with e show False ..
  qed
  from e have "\<not> isWhiteSpace (hd ?e)" by (rule hd_dropWhile)
  then show "\<not> isWhiteSpace (last (trim s))"
    by (simp add: trim_def last_rev)
  from d have nd: "\<not> isWhiteSpace (hd ?d)" by (rule hd_dropWhile)
  from d have "hd ?d \<in> set (rev ?d)" by simp
  with nd have "last ?e = last (rev ?d)"
    using dropWhile_last [of "hd ?d" "rev ?d" isWhiteSpace] by simp
  with d have "last ?e = hd ?d"
    by (simp add: last_rev)
  with nd show "\<not> isWhiteSpace (hd (trim s))"
    by (simp add: trim_def hd_rev)
qed

lemma trim_id:
  assumes "s \<noteq> []" "\<not> isWhiteSpace (hd s)" "\<not> isWhiteSpace (last s)"
  shows "trim s = s"
proof -
  from assms have 1: "dropWhile isWhiteSpace s = s"
    by (simp add: dropWhile_eq_self_iff)
  from assms have "dropWhile isWhiteSpace (rev s) = rev s"
    by (simp add: dropWhile_eq_self_iff hd_rev)
  with 1 show ?thesis by (simp add: trim_def)
qed

lemma trim_trim: "trim (trim s) = trim s"
proof (cases "trim s = []")
  case True
  then show ?thesis by (simp add: trim_Nil)
next
  case False
  from trim_id [OF False trim_ends [OF False]] show ?thesis .
qed

lemma digit_not_space: "isDigit c \<Longrightarrow> \<not> isWhiteSpace c"
  by (auto simp: isDigit_def isWhiteSpace_def)

lemma pattern_trimmed: "trim (''%'' @ t @ ''%'') = ''%'' @ t @ ''%''"
  by (rule trim_id) (simp_all add: isWhiteSpace_def)

subsection \<open>The location parser\<close>

lemma isZip_Some: "isZip (Some s) = zip_regex (trim s)"
  by (simp add: isZip_def or_str_def trim_Nil)

lemma split_on_unfold:
  "split_on sep s =
     takeWhile (\<lambda>c. c \<noteq> sep) s #
     (case dropWhile (\<lambda>c. c \<noteq> sep) s of [] \<Rightarrow> [] | c # rest \<Rightarrow> split_on sep rest)"
  by (induction s) (auto split: list.splits)

lemma element_split_on_0:
  "element (map f (split_on sep s)) 0 = Some (f (takeWhile (\<lambda>c. c \<noteq> sep) s))"
  by (subst split_on_unfold) (simp add: element_def)

lemma element_split_on_1:
  "element (map f (split_on sep s)) (Suc 0) =
     (case dropWhile (\<lambda>c. c \<noteq> sep) s of
        [] \<Rightarrow> None
      | c # rest \<Rightarrow> Some (f (takeWhile (\<lambda>c. c \<noteq> sep) rest)))"
proof (cases "dropWhile (\<lambda>c. c \<noteq> sep) s")
  case Nil
  then show ?thesis
    by (subst split_on_unfold) (simp add: element_def del: dropWhile_eq_Nil_conv)
next
  case (Cons c rest)
  have "split_on sep rest \<noteq> []"
    by (subst split_on_unfold) simp
  moreover have "hd (split_on sep rest) = takeWhile (\<lambda>c. c \<noteq> sep) rest"
    by (subst split_on_unfold) simp
  ultimately show ?thesis using Cons
    by (subst split_on_unfold) (cases "split_on sep rest"; simp add: element_def)
qed

text \<open>
  Claim C9. A location whose trimmed text is five digits, or five digits, a dash and
  four digits, parses to the object with the field \<^verbatim>\<open>zip5\<close> alone: the five digits,
  without the suffix, and neither city nor state.
\<close>

theorem parseLocation_zip:
  assumes "length ds = 5" and "list_all isDigit ds"
    and "length es = 4" and "list_all isDigit es"
    and "trim s = ds \<or> trim s = ds @ ''-'' @ es"
  shows "parseLocation (Some s) = ZipLocation ds \<and>
         zip5_of (parseLocation (Some s)) = Some ds \<and>
         city_of (parseLocation (Some s)) = None \<and>
         state_of (parseLocation (Some s)) = None"
proof -
  from assms have z: "zip_regex (trim s)"
    by (auto simp: zip_regex_def)
  from assms have ne: "s \<noteq> []"
    by (auto simp: trim_Nil)
  from assms have "take 5 (trim s) = ds" by auto
  with z ne have "parseLocation (Some s) = ZipLocation ds"
    by (simp add: parseLocation_def Let_def isZip_Some trim_trim)
  then show ?thesis by simp
qed

theorem parseLocation_zip_witness:
  "parseLocation (Some '' 73301-1234 '') = ZipLocation ''73301'' \<and>
   zip5_of (parseLocation (Some '' 73301-1234 '')) = Some ''73301'' \<and>
   city_of (parseLocation (Some '' 73301-1234 '')) = None \<and>
   state_of (parseLocation (Some '' 73301-1234 '')) = None \<and>
   parseLocation (Some ''73301'') = ZipLocation ''73301''"
proof -
  have l5: "length ''73301'' = 5" by simp
  have d5: "list_all isDigit ''73301''" by (simp add: isDigit_def)
  have l4: "length ''1234'' = 4" by simp
  have d4: "list_all isDigit ''1234''" by (simp add: isDigit_def)
  have t1: "trim '' 73301-1234 '' = ''73301'' \<or> trim '' 73301-1234 '' = ''73301'' @ ''-'' @ ''1234''"
    by (simp add: trim_def isWhiteSpace_def)
  have t2: "trim ''73301'' = ''73301'' \<or> trim ''73301'' = ''73301'' @ ''-'' @ ''1234''"
    by (simp add: trim_def isWhiteSpace_def)
  from parseLocation_zip [OF l5 d5 l4 d4 t1] parseLocation_zip [OF l5 d5 l4 d4 t2]
  show ?thesis by simp
qed

text \<open>
  Claim C3, as the code has it. A location that is not empty and no zip code is cut at
  its commas after trimming. The city is the trimmed text before the first comma, null
  if that is empty. The state is the text between the first comma and the next one (or
  the end of the input, if there is no other comma), trimmed, upper-cased and cut to its
  first two characters; it is null if that is empty or if there is no comma at all.
\<close>

theorem parseLocation_city_state:
  assumes "s \<noteq> []" and "\<not> isZip (Some s)"
  shows "parseLocation (Some s) =
     CityState (or_null (Some (trim (before_comma (trim s)))))
       (case after_comma (trim s) of
          None \<Rightarrow> None
        | Some right \<Rightarrow> or_null (Some (take 2 (toUpperCase (trim (before_comma right))))))"
proof -
  from assms(2) have nz: "\<not> isZip (Some (trim s))"
    by (simp add: isZip_Some trim_trim)
  show ?thesis
  proof (cases "dropWhile (\<lambda>c. c \<noteq> CHR '','') (trim s)")
    case Nil
    with assms(1) nz show ?thesis
      by (simp add: parseLocation_def Let_def element_split_on_0 element_split_on_1
          before_comma_def after_comma_def or_str_def or_null_def toUpperCase_def
          del: dropWhile_eq_Nil_conv)
  next
    case (Cons c rest)
    with assms(1) nz show ?thesis
      by (simp add: parseLocation_def Let_def element_split_on_0 element_split_on_1
          before_comma_def after_comma_def or_str_def or_null_def toUpperCase_def
          del: dropWhile_eq_Nil_conv)
  qed
qed

text \<open>
  The theorem at \<^verbatim>\<open>"Austin"\<close>, which has no comma: the city Austin and no state; and at
  \<^verbatim>\<open>"Dallas, tx"\<close>: the city Dallas and the state TX.
\<close>

theorem parseLocation_city_state_witness:
  "''Austin'' \<noteq> [] \<and> \<not> isZip (Some ''Austin'') \<and>
   parseLocation (Some ''Austin'') = CityState (Some ''Austin'') None \<and>
   ''Dallas, tx'' \<noteq> [] \<and> \<not> isZip (Some ''Dallas, tx'') \<and>
   parseLocation (Some ''Dallas, tx'') = CityState (Some ''Dallas'') (Some ''TX'')"
proof -
  have a1: "''Austin'' \<noteq> []" by simp
  have a2: "\<not> isZip (Some ''Austin'')" by code_simp
  have a3: "CityState (or_null (Some (trim (before_comma (trim ''Austin'')))))
       (case after_comma (trim ''Austin'') of
          None \<Rightarrow> None
        | Some right \<Rightarrow> or_null (Some (take 2 (toUpperCase (trim (before_comma right))))))
     = CityState (Some ''Austin'') None"
    by code_simp
  have b1: "''Dallas, tx'' \<noteq> []" by simp
  have b2: "\<not> isZip (Some ''Dallas, tx'')" by code_simp
  have b3: "CityState (or_null (Some (trim (before_comma (trim ''Dallas, tx'')))))
       (case after_comma (trim ''Dallas, tx'') of
          None \<Rightarrow> None
        | Some right \<Rightarrow> or_null (Some (take 2 (toUpperCase (trim (before_comma right))))))
     = CityState (Some ''Dallas'') (Some ''TX'')"
    by code_simp
  from parseLocation_city_state [OF a1 a2] a3
  have a: "parseLocation (Some ''Austin'') = CityState (Some ''Austin'') None"
    by (rule trans)
  from parseLocation_city_state [OF b1 b2] b3
  have b: "parseLocation (Some ''Dallas, tx'') = CityState (Some ''Dallas'') (Some ''TX'')"
    by (rule trans)
  from a a2 b b2 show ?thesis by simp
qed

text \<open>
  Claim C3 as stated takes the state from the whole right part of the split on the first
  comma. At \<^verbatim>\<open>"Austin,T,X"\<close>, which is no zip code, that right part is \<^verbatim>\<open>"T,X"\<close>
  (trimming changes nothing there) and the state of the claim is \<^verbatim>\<open>"T,"\<close>; the parser
  returns the state \<^verbatim>\<open>"T"\<close>.
\<close>

theorem parseLocation_state_counterexample:
  "\<not> isZip (Some ''Austin,T,X'') \<and>
   after_comma ''Austin,T,X'' = Some ''T,X'' \<and> trim ''T,X'' = ''T,X'' \<and>
   spec_state ''Austin,T,X'' = Some ''T,'' \<and>
   state_of (parseLocation (Some ''Austin,T,X'')) = Some ''T'' \<and>
   state_of (parseLocation (Some ''Austin,T,X'')) \<noteq> spec_state ''Austin,T,X''"
  by code_simp

lemma upperChar_no_lower: "d \<in> set (upperChar c) \<Longrightarrow> \<not> isLowerCase d"
  by (auto simp: upperChar_def isLowerCase_def Let_def split: if_splits)

lemma toUpperCase_no_lower: "d \<in> set (toUpperCase s) \<Longrightarrow> \<not> isLowerCase d"
  by (auto simp: toUpperCase_def dest: upperChar_no_lower)

lemma state_shape:
  assumes "state_of (parseLocation input) = Some st"
  shows "1 \<le> length st \<and> length st \<le> 2 \<and> list_all (\<lambda>c. \<not> isLowerCase c) st"
proof -
  from assms obtain x where st: "st = take 2 (toUpperCase x)" and ne: "st \<noteq> []"
    by (auto simp: parseLocation_def Let_def or_null_def split: option.splits if_splits)
  have "set st \<subseteq> set (toUpperCase x)"
    unfolding st by (rule set_take_subset)
  then have "list_all (\<lambda>c. \<not> isLowerCase c) st"
    by (auto simp: list_all_iff dest: toUpperCase_no_lower)
  moreover from ne have "1 \<le> length st" by (cases st) simp_all
  moreover have "length st \<le> 2" unfolding st by simp
  ultimately show ?thesis by blast
qed

lemma zip5_shape:
  assumes "zip5_of (parseLocation input) = Some z"
  shows "length z = 5 \<and> list_all isDigit z"
proof -
  from assms obtain s where z: "z = take 5 (trim s)" and r: "zip_regex (trim s)"
    by (auto simp: parseLocation_def Let_def isZip_Some trim_trim
        split: option.splits if_splits)
  from r show ?thesis unfolding z
    by (simp add: zip_regex_def)
qed

lemma one_branch:
  "\<not> (zip5_of (parseLocation input) \<noteq> None \<and>
      (city_of (parseLocation input) \<noteq> None \<or> state_of (parseLocation input) \<noteq> None))"
  by (cases "parseLocation input") simp_all

text \<open>
  Claim C4, as the code has it. For every input, absent or any string, the parsed
  location never has both a zip code and a city or a state. A state that is present has
  one or two characters, none of them a lower-case letter a to z; the parser checks
  neither that there are two nor that they are letters. A zip code that is present is
  exactly five digits.
\<close>

theorem parseLocation_shape:
  "\<not> (zip5_of (parseLocation input) \<noteq> None \<and>
      (city_of (parseLocation input) \<noteq> None \<or> state_of (parseLocation input) \<noteq> None)) \<and>
   (\<forall>st. state_of (parseLocation input) = Some st \<longrightarrow>
      1 \<le> length st \<and> length st \<le> 2 \<and> list_all (\<lambda>c. \<not> isLowerCase c) st) \<and>
   (\<forall>z. zip5_of (parseLocation input) = Some z \<longrightarrow> length z = 5 \<and> list_all isDigit z)"
  using one_branch [of input] state_shape [of input] zip5_shape [of input] by blast

theorem parseLocation_shape_witness:
  "state_of (parseLocation (Some ''Dallas, tx'')) = Some ''TX'' \<and>
   1 \<le> length ''TX'' \<and> length ''TX'' \<le> 2 \<and> list_all (\<lambda>c. \<not> isLowerCase c) ''TX'' \<and>
   zip5_of (parseLocation (Some ''Dallas, tx'')) = None \<and>
   zip5_of (parseLocation (Some ''73301-1234'')) = Some ''73301'' \<and>
   length ''73301'' = 5 \<and> list_all isDigit ''73301'' \<and>
   state_of (parseLocation (Some ''73301-1234'')) = None \<and>
   city_of (parseLocation (Some ''73301-1234'')) = None"
proof -
  have s: "state_of (parseLocation (Some ''Dallas, tx'')) = Some ''TX''" by code_simp
  have z: "zip5_of (parseLocation (Some ''73301-1234'')) = Some ''73301''" by code_simp
  from parseLocation_shape [of "Some ''Dallas, tx''"] s
  have 1: "1 \<le> length ''TX'' \<and> length ''TX'' \<le> 2 \<and> list_all (\<lambda>c. \<not> isLowerCase c) ''TX'' \<and>
           zip5_of (parseLocation (Some ''Dallas, tx'')) = None"
    by blast
  from parseLocation_shape [of "Some ''73301-1234''"] z
  have 2: "length ''73301'' = 5 \<and> list_all isDigit ''73301'' \<and>
           state_of (parseLocation (Some ''73301-1234'')) = None \<and>
           city_of (parseLocation (Some ''73301-1234'')) = None"
    by blast
  from s z 1 2 show ?thesis by blast
qed

text \<open>
  Claim C4 as stated has a state that is present be exactly two upper-case letters. At
  \<^verbatim>\<open>"Austin, 1"\<close> the state is \<^verbatim>\<open>"1"\<close>: one character, and a digit.
\<close>

theorem parseLocation_state_length_counterexample:
  "state_of (parseLocation (Some ''Austin, 1'')) = Some ''1'' \<and>
   length ''1'' \<noteq> (2::nat) \<and> isDigit CHR ''1''"
  by code_simp

subsection \<open>The bound parameters\<close>

lemma zip5_trimmed:
  assumes "zip5_of (parseLocation input) = Some z"
  shows "z \<noteq> [] \<and> trim z = z"
proof -
  from zip5_shape [OF assms] have l: "length z = 5" and d: "list_all isDigit z" by simp_all
  from l have ne: "z \<noteq> []" by auto
  with d have "isDigit (hd z)" "isDigit (last z)"
    by (simp_all add: list_all_iff)
  with ne show ?thesis
    by (simp add: trim_id digit_not_space)
qed

lemma city_trimmed:
  assumes "city_of (parseLocation input) = Some c"
  shows "c \<noteq> [] \<and> trim c = c"
proof -
  from assms obtain x where "c = trim x" "c \<noteq> []"
    by (auto simp: parseLocation_def Let_def or_null_def element_split_on_0
        split: option.splits if_splits)
  then show ?thesis by (simp add: trim_trim)
qed

lemma or_null_Some: "or_null x = Some t \<Longrightarrow> x = Some t \<and> t \<noteq> []"
  by (auto simp: or_null_def split: option.splits if_splits)

text \<open>
  Claim C5, as the code has it. For every raw query, the bound category is the category
  of the query as it came, not trimmed, or null when the query has none or an empty one.
  Every string parameter that is not null is a non-empty string. The text pattern, the
  zip code and the city are trimmed strings as well (trimming them changes nothing); the
  category and the state may carry white space.
\<close>

theorem bindings_fields:
  "p_category (bindings rq) =
     (case query_category rq of None \<Rightarrow> None | Some c \<Rightarrow> if c = [] then None else Some c) \<and>
   (\<forall>t. p_category (bindings rq) = Some t \<longrightarrow> t \<noteq> []) \<and>
   (\<forall>t. p_q (bindings rq) = Some t \<longrightarrow> t \<noteq> [] \<and> trim t = t) \<and>
   (\<forall>t. p_zip5 (bindings rq) = Some t \<longrightarrow> t \<noteq> [] \<and> trim t = t) \<and>
   (\<forall>t. p_city (bindings rq) = Some t \<longrightarrow> t \<noteq> [] \<and> trim t = t) \<and>
   (\<forall>t. p_state (bindings rq) = Some t \<longrightarrow> t \<noteq> [])"
proof -
  have cat: "p_category (bindings rq) =
     (case query_category rq of None \<Rightarrow> None | Some c \<Rightarrow> if c = [] then None else Some c)"
    by (simp add: bindings_def Let_def or_null_def)
  have cat_ne: "\<forall>t. p_category (bindings rq) = Some t \<longrightarrow> t \<noteq> []"
    by (auto simp: bindings_def Let_def dest: or_null_Some)
  have q: "\<forall>t. p_q (bindings rq) = Some t \<longrightarrow> t \<noteq> [] \<and> trim t = t"
    using pattern_trimmed by (auto simp: bindings_def Let_def split: option.splits)
  have z: "\<forall>t. p_zip5 (bindings rq) = Some t \<longrightarrow> t \<noteq> [] \<and> trim t = t"
    by (auto simp: bindings_def Let_def dest!: or_null_Some dest: zip5_trimmed)
  have c: "\<forall>t. p_city (bindings rq) = Some t \<longrightarrow> t \<noteq> [] \<and> trim t = t"
    by (auto simp: bindings_def Let_def dest!: or_null_Some dest: city_trimmed)
  have s: "\<forall>t. p_state (bindings rq) = Some t \<longrightarrow> t \<noteq> []"
    by (auto simp: bindings_def Let_def dest: or_null_Some)
  from cat cat_ne q z c s show ?thesis by blast
qed

theorem bindings_fields_witness:
  "p_category (bindings \<lparr> query_q = Some ''a'', query_category = Some ''Clinic'',
      query_location = Some ''Austin, tx'', query_limit = None \<rparr>) = Some ''Clinic'' \<and>
   p_q (bindings \<lparr> query_q = Some ''a'', query_category = Some ''Clinic'',
      query_location = Some ''Austin, tx'', query_limit = None \<rparr>) = Some ''%a%'' \<and>
   trim ''%a%'' = ''%a%'' \<and>
   p_city (bindings \<lparr> query_q = Some ''a'', query_category = Some ''Clinic'',
      query_location = Some ''Austin, tx'', query_limit = None \<rparr>) = Some ''Austin'' \<and>
   trim ''Austin'' = ''Austin'' \<and>
   p_state (bindings \<lparr> query_q = Some ''a'', query_category = Some ''Clinic'',
      query_location = Some ''Austin, tx'', query_limit = None \<rparr>) = Some ''TX'' \<and>
   p_zip5 (bindings \<lparr> query_q = None, query_category = Some [],
      query_location = Some ''73301'', query_limit = None \<rparr>) = Some ''73301'' \<and>
   trim ''73301'' = ''73301'' \<and>
   p_category (bindings \<lparr> query_q = None, query_category = Some [],
      query_location = Some ''73301'', query_limit = None \<rparr>) = None"
proof -
  let ?a = "\<lparr> query_q = Some ''a'', query_category = Some ''Clinic'',
      query_location = Some ''Austin, tx'', query_limit = None \<rparr>"
  let ?b = "\<lparr> query_q = None, query_category = Some [],
      query_location = Some ''73301'', query_limit = None \<rparr>"
  have a: "p_category (bindings ?a) = Some ''Clinic'' \<and> p_q (bindings ?a) = Some ''%a%'' \<and>
           p_city (bindings ?a) = Some ''Austin'' \<and> p_state (bindings ?a) = Some ''TX''"
    by code_simp
  have b: "p_zip5 (bindings ?b) = Some ''73301''"
    by code_simp
  from bindings_fields [of ?a] a
  have 1: "trim ''%a%'' = ''%a%'' \<and> trim ''Austin'' = ''Austin''"
    by blast
  from bindings_fields [of ?b] b
  have 2: "trim ''73301'' = ''73301'' \<and> p_category (bindings ?b) = None"
    by simp
  from a b 1 2 show ?thesis by blast
qed

text \<open>
  Claim C5 as stated has the bound category trimmed. The category \<^verbatim>\<open>" a "\<close> is bound as
  it came, with its two spaces.
\<close>

theorem bindings_category_counterexample:
  "p_category (bindings \<lparr> query_q = None, query_category = Some '' a '',
      query_location = None, query_limit = None \<rparr>) = Some '' a '' \<and>
   trim '' a '' = ''a'' \<and> trim '' a '' \<noteq> '' a ''"
  by code_simp

subsection \<open>Escaping\<close>

lemma replace_all_append:
  "replace_all c t (xs @ ys) = replace_all c t xs @ replace_all c t ys"
  by (simp add: replace_all_def)

lemma replace_all_Nil: "replace_all c t [] = []"
  by (simp add: replace_all_def)

lemma esc_Nil: "esc (Some []) = []"
  by (simp add: esc_def or_str_def replace_all_Nil)

lemma esc_None: "esc None = []"
  by (simp add: esc_def or_str_def replace_all_Nil)

lemma esc_single: "esc (Some [d]) = entity d"
  by (simp add: esc_def or_str_def replace_all_def entity_def)

lemma esc_append: "esc (Some (xs @ ys)) = esc (Some xs) @ esc (Some ys)"
  by (simp add: esc_def or_str_def replace_all_append replace_all_Nil)

text \<open>
  The five replacements of \<^verbatim>\<open>esc\<close>, one after the other with the ampersand first, come
  to the replacement of every character by its entity at once.
\<close>

lemma esc_entities: "esc (Some s) = concat (map entity s)"
proof (induction s)
  case Nil
  show ?case by (simp add: esc_Nil)
next
  case (Cons d s)
  have "esc (Some (d # s)) = esc (Some [d]) @ esc (Some s)"
    using esc_append [of "[d]" s] by simp
  with Cons show ?case by (simp add: esc_single)
qed

lemma entity_no_markup: "d \<in> set (entity c) \<Longrightarrow> \<not> isMarkup d"
  by (auto simp: entity_def isMarkup_def split: if_splits)

lemma esc_no_markup: "d \<in> set (esc x) \<Longrightarrow> \<not> isMarkup d"
  by (cases x) (auto simp: esc_None esc_entities dest: entity_no_markup)

lemma decimal_digits: "d \<in> set (decimal n) \<Longrightarrow> isDigit d"
proof (induction n arbitrary: d rule: decimal.induct)
  case (1 n)
  show ?case
  proof (cases "n < 10")
    case True
    with "1.prems" have "d = char_of (48 + n)"
      by (subst (asm) decimal.simps) simp
    with True show ?thesis
      by (simp add: isDigit_def)
  next
    case False
    have "n mod 10 < 10" by simp
    then have "isDigit (char_of (48 + n mod 10))"
      by (simp add: isDigit_def)
    with False "1.prems" "1.IH" show ?thesis
      by (subst (asm) decimal.simps) auto
  qed
qed

lemma decimal_no_lt: "CHR ''<'' \<notin> set (decimal n)"
  using decimal_digits [of "CHR ''<''" n] by (auto simp: isDigit_def)

lemma esc_no_lt: "CHR ''<'' \<notin> set (esc x)"
  using esc_no_markup [of "CHR ''<''" x] by (auto simp: isMarkup_def)

lemma sublist_skip:
  "c \<notin> set E \<Longrightarrow> sublist (c # p) (E @ X) = sublist (c # p) X"
  by (induction E) (simp_all add: sublist_Cons_right)

lemma no_script: "\<not> sublist ''<script>'' (content_of r idx)"
proof -
  have skip: "\<And>E X. CHR ''<'' \<notin> set E \<Longrightarrow>
      sublist ''<script>'' (E @ X) = sublist ''<script>'' X"
    by (rule sublist_skip)
  show ?thesis
    by (simp add: content_of_def sublist_Cons_right skip esc_no_lt decimal_no_lt)
qed

text \<open>
  Claim C2. For every row, the content of its item is the fixed markup around three
  texts taken from the row and the detail url: the title, the category and the city/state
  text, each passed through \<^verbatim>\<open>esc\<close>. \<^verbatim>\<open>esc\<close> replaces each of the ampersand, the two
  angle brackets, the double and the single quote by its entity and leaves every other
  character; its result has no angle bracket and no quote. So the text \<^verbatim>\<open><script>\<close>
  never stands in the content, whatever the row holds; a title and a category with that
  text appear with \<^verbatim>\<open>&lt;\<close> and \<^verbatim>\<open>&gt;\<close>.
\<close>

theorem content_escaped:
  "content (item_of r idx) =
     ''<div><strong>'' @ esc (Some (title (item_of r idx))) @ ''</strong><br>'' @
     esc (Some (or_str (Category r) [])) @ '' - '' @ esc (Some (citySt_of r)) @
     ''<br><a href='' @ [CHR 0x22] @ url (item_of r idx) @ [CHR 0x22] @
     '' target='' @ [CHR 0x22] @ ''_blank'' @ [CHR 0x22] @ ''>View Details</a></div>'' \<and>
   esc (Some s) = concat (map entity s) \<and>
   esc None = [] \<and>
   list_all (\<lambda>c. \<not> isMarkup c) (esc x) \<and>
   \<not> sublist ''<script>'' (content (item_of r idx)) \<and>
   content (item_of
     \<lparr> Category = Some ''<script>'',
       Provider_Organization_Name = Some ''<script>alert(1)</script>'',
       Provider_Practice_City = Some ''A&B'', Provider_Practice_State = None,
       Provider_Practice_Zip = None, Full_Address = None, Latitude = ''1'', Longitude = ''2'',
       Healthcare_Provider_Taxonomy_Code_1 = None \<rparr> 0) =
     ''<div><strong>&lt;script&gt;alert(1)&lt;/script&gt;</strong><br>&lt;script&gt; - A&amp;B'' @
     ''<br><a href='' @ [CHR 0x22] @ ''https://findcare.dev/facility/1'' @ [CHR 0x22] @
     '' target='' @ [CHR 0x22] @ ''_blank'' @ [CHR 0x22] @ ''>View Details</a></div>''"
proof -
  have shape: "content (item_of r idx) =
     ''<div><strong>'' @ esc (Some (title (item_of r idx))) @ ''</strong><br>'' @
     esc (Some (or_str (Category r) [])) @ '' - '' @ esc (Some (citySt_of r)) @
     ''<br><a href='' @ [CHR 0x22] @ url (item_of r idx) @ [CHR 0x22] @
     '' target='' @ [CHR 0x22] @ ''_blank'' @ [CHR 0x22] @ ''>View Details</a></div>''"
    by (simp add: item_of_def content_of_def)
  have clean: "list_all (\<lambda>c. \<not> isMarkup c) (esc x)"
    by (auto simp: list_all_iff dest: esc_no_markup)
  have script: "\<not> sublist ''<script>'' (content (item_of r idx))"
    by (simp add: item_of_def no_script)
  have example: "content (item_of
     \<lparr> Category = Some ''<script>'',
       Provider_Organization_Name = Some ''<script>alert(1)</script>'',
       Provider_Practice_City = Some ''A&B'', Provider_Practice_State = None,
       Provider_Practice_Zip = None, Full_Address = None, Latitude = ''1'', Longitude = ''2'',
       Healthcare_Provider_Taxonomy_Code_1 = None \<rparr> 0) =
     ''<div><strong>&lt;script&gt;alert(1)&lt;/script&gt;</strong><br>&lt;script&gt; - A&amp;B'' @
     ''<br><a href='' @ [CHR 0x22] @ ''https://findcare.dev/facility/1'' @ [CHR 0x22] @
     '' target='' @ [CHR 0x22] @ ''_blank'' @ [CHR 0x22] @ ''>View Details</a></div>''"
    by code_simp
  from shape esc_entities [of s] esc_None clean script example show ?thesis
    by blast
qed

subsection \<open>The rank of an item\<close>

lemma items_of_nth:
  "items_of recordset =
     map (\<lambda>k. item_of ((case recordset of None \<Rightarrow> [] | Some rs \<Rightarrow> rs) ! k) k)
       [0..<length (case recordset of None \<Rightarrow> [] | Some rs \<Rightarrow> rs)]"
proof -
  have "\<And>rows. map (\<lambda>(idx, r). item_of r idx) (enumerate 0 rows) =
        map (\<lambda>k. item_of (rows ! k) k) [0..<length rows]"
    by (rule nth_equalityI) (simp_all add: nth_enumerate_eq)
  then show ?thesis by (simp add: items_of_def Let_def)
qed

lemma digitValue_digit: "d < 10 \<Longrightarrow> digitValue 10 (char_of (48 + d)) = Some d"
  by (simp add: digitValue_def Let_def)

lemma radixValue_snoc:
  "radixValue R (Z @ [c]) =
     radixValue R Z * R + (case digitValue R c of None \<Rightarrow> 0 | Some d \<Rightarrow> d)"
  by (simp add: radixValue_def)

text \<open>The decimal text of a number, read in radix 10, is the number.\<close>

lemma radixValue_decimal: "radixValue 10 (decimal n) = n"
proof (induction n rule: decimal.induct)
  case (1 n)
  show ?case
  proof (cases "n < 10")
    case True
    then have "decimal n = [char_of (48 + n)]"
      by (subst decimal.simps) simp
    with True show ?thesis
      by (simp add: radixValue_def digitValue_digit)
  next
    case False
    then have d: "decimal n = decimal (n div 10) @ [char_of (48 + n mod 10)]"
      by (subst decimal.simps) simp
    have "n mod 10 < 10" by simp
    then have "digitValue 10 (char_of (48 + n mod 10)) = Some (n mod 10)"
      by (rule digitValue_digit)
    with False "1.IH" d show ?thesis
      by (simp add: radixValue_snoc)
  qed
qed

text \<open>
  Claim C7. The items of a record set of N rows are N items, and the item at position k
  (counted from 0) is the item formatted from row k with the index k: the items follow the
  order of the rows. The id of that item is k + 1, so the ids are exactly 1 to N in that
  order, without gap or repeat. The detail url of every item is the fixed address followed
  by the decimal text of the item's id; that text has digits only and reads back as the
  id, and the items of rank 10 and 11 have the urls that end in \<^verbatim>\<open>/10\<close> and \<^verbatim>\<open>/11\<close>.
\<close>

theorem items_rank:
  "length (items_of (Some rs)) = length rs \<and>
   items_of None = [] \<and>
   map item_id (items_of recordset) = [1..<Suc (length (items_of recordset))] \<and>
   distinct (map item_id (items_of recordset)) \<and>
   map url (items_of recordset) =
     map (\<lambda>it. ''https://findcare.dev/facility/'' @ decimal (item_id it)) (items_of recordset) \<and>
   items_of (Some rs) = map (\<lambda>k. item_of (rs ! k) k) [0..<length rs] \<and>
   (\<forall>k<length rs. items_of (Some rs) ! k = item_of (rs ! k) k) \<and>
   item_id (item_of r idx) = idx + 1 \<and>
   url (item_of r idx) = ''https://findcare.dev/facility/'' @ decimal (idx + 1) \<and>
   radixValue 10 (decimal n) = n \<and>
   list_all isDigit (decimal n) \<and>
   decimal 1 = ''1'' \<and> decimal 10 = ''10'' \<and> decimal 11 = ''11'' \<and>
   url (item_of r 9) = ''https://findcare.dev/facility/10'' \<and>
   url (item_of r 10) = ''https://findcare.dev/facility/11''"
proof -
  have ids: "map item_id (items_of recordset) = [1..<Suc (length (items_of recordset))]"
    by (simp add: item_id_items_of length_items_of map_Suc_upt)
  have "map url (items_of recordset) =
        map (\<lambda>k. ''https://findcare.dev/facility/'' @ decimal k)
          (map item_id (items_of recordset))"
    by (simp add: url_items_of item_id_items_of)
  then have urls: "map url (items_of recordset) =
     map (\<lambda>it. ''https://findcare.dev/facility/'' @ decimal (item_id it)) (items_of recordset)"
    by (simp add: comp_def)
  have dist: "distinct (map item_id (items_of recordset))"
    by (simp add: ids)
  have len: "length (items_of (Some rs)) = length rs \<and> items_of None = []"
    by (simp add: length_items_of items_of_def)
  have rows: "items_of (Some rs) = map (\<lambda>k. item_of (rs ! k) k) [0..<length rs]"
    using items_of_nth [of "Some rs"] by simp
  have nth: "\<forall>k<length rs. items_of (Some rs) ! k = item_of (rs ! k) k"
    by (simp add: rows)
  have one: "item_id (item_of r idx) = idx + 1 \<and>
     url (item_of r idx) = ''https://findcare.dev/facility/'' @ decimal (idx + 1)"
    by (simp add: item_of_def)
  have digits: "list_all isDigit (decimal n)"
    by (simp add: list_all_iff decimal_digits)
  have dec: "decimal 1 = ''1'' \<and> decimal 10 = ''10'' \<and> decimal 11 = ''11''"
    by code_simp
  have "decimal (9 + 1) = ''10''" "decimal (10 + 1) = ''11''"
    by code_simp+
  then have closed: "url (item_of r 9) = ''https://findcare.dev/facility/10'' \<and>
     url (item_of r 10) = ''https://findcare.dev/facility/11''"
    by (simp add: item_of_def)
  from len ids dist urls rows nth one radixValue_decimal [of n] digits dec closed
  show ?thesis by blast
qed

text \<open>
  The theorem at two rows named A and B: the second item is the one of row B, with the
  id 2 and the url of rank 2.
\<close>

theorem items_rank_witness:
  "(1::nat) < length
     [\<lparr> Category = None, Provider_Organization_Name = Some ''A'',
        Provider_Practice_City = None, Provider_Practice_State = None,
        Provider_Practice_Zip = None, Full_Address = None, Latitude = ''1'', Longitude = ''2'',
        Healthcare_Provider_Taxonomy_Code_1 = None \<rparr>,
      \<lparr> Category = None, Provider_Organization_Name = Some ''B'',
        Provider_Practice_City = None, Provider_Practice_State = None,
        Provider_Practice_Zip = None, Full_Address = None, Latitude = ''3'', Longitude = ''4'',
        Healthcare_Provider_Taxonomy_Code_1 = None \<rparr>] \<and>
   item_id (items_of (Some
     [\<lparr> Category = None, Provider_Organization_Name = Some ''A'',
        Provider_Practice_City = None, Provider_Practice_State = None,
        Provider_Practice_Zip = None, Full_Address = None, Latitude = ''1'', Longitude = ''2'',
        Healthcare_Provider_Taxonomy_Code_1 = None \<rparr>,
      \<lparr> Category = None, Provider_Organization_Name = Some ''B'',
        Provider_Practice_City = None, Provider_Practice_State = None,
        Provider_Practice_Zip = None, Full_Address = None, Latitude = ''3'', Longitude = ''4'',
        Healthcare_Provider_Taxonomy_Code_1 = None \<rparr>]) ! 1) = 2 \<and>
   title (items_of (Some
     [\<lparr> Category = None, Provider_Organization_Name = Some ''A'',
        Provider_Practice_City = None, Provider_Practice_State = None,
        Provider_Practice_Zip = None, Full_Address = None, Latitude = ''1'', Longitude = ''2'',
        Healthcare_Provider_Taxonomy_Code_1 = None \<rparr>,
      \<lparr> Category = None, Provider_Organization_Name = Some ''B'',
        Provider_Practice_City = None, Provider_Practice_State = None,
        Provider_Practice_Zip = None, Full_Address = None, Latitude = ''3'', Longitude = ''4'',
        Healthcare_Provider_Taxonomy_Code_1 = None \<rparr>]) ! 1) = ''B'' \<and>
   url (items_of (Some
     [\<lparr> Category = None, Provider_Organization_Name = Some ''A'',
        Provider_Practice_City = None, Provider_Practice_State = None,
        Provider_Practice_Zip = None, Full_Address = None, Latitude = ''1'', Longitude = ''2'',
        Healthcare_Provider_Taxonomy_Code_1 = None \<rparr>,
      \<lparr> Category = None, Provider_Organization_Name = Some ''B'',
        Provider_Practice_City = None, Provider_Practice_State = None,
        Provider_Practice_Zip = None, Full_Address = None, Latitude = ''3'', Longitude = ''4'',
        Healthcare_Provider_Taxonomy_Code_1 = None \<rparr>]) ! 1) =
     ''https://findcare.dev/facility/2''"
proof -
  let ?a = "\<lparr> Category = None, Provider_Organization_Name = Some ''A'',
        Provider_Practice_City = None, Provider_Practice_State = None,
        Provider_Practice_Zip = None, Full_Address = None, Latitude = ''1'', Longitude = ''2'',
        Healthcare_Provider_Taxonomy_Code_1 = None \<rparr>"
  let ?b = "\<lparr> Category = None, Provider_Organization_Name = Some ''B'',
        Provider_Practice_City = None, Provider_Practice_State = None,
        Provider_Practice_Zip = None, Full_Address = None, Latitude = ''3'', Longitude = ''4'',
        Healthcare_Provider_Taxonomy_Code_1 = None \<rparr>"
  have k: "(1::nat) < length [?a, ?b]" by simp
  from items_rank [of "[?a, ?b]"] k
  have nth: "items_of (Some [?a, ?b]) ! 1 = item_of ([?a, ?b] ! 1) 1"
    by blast
  have "decimal (1 + 1) = ''2''" by code_simp
  then have "item_id (item_of ?b 1) = 2 \<and> title (item_of ?b 1) = ''B'' \<and>
        url (item_of ?b 1) = ''https://findcare.dev/facility/2''"
    by (simp add: item_of_def title_of_def or_str_def)
  with nth k show ?thesis by simp
qed

subsection \<open>The two envelopes\<close>

text \<open>On a query of texts, the handler on any query is the handler on texts.\<close>

lemma get_map_feed_text:
  "get_map_feed (text_query rq) (Inl e) = map_feed rq (Inl e) \<and>
   get_map_feed (text_query rq) (Inr request) =
     map_feed rq (Inr (\<lambda>fs. request (text_inputs fs)))"
proof -
  have lim: "lim_of_any (req_limit (text_query rq)) = Inr (lim_of (query_limit rq))"
    by (cases "query_limit rq") (simp_all add: text_query_def lim_of_any_def ToString_def)
  have loc: "parseLocation_any (req_location (text_query rq)) =
             Inr (parseLocation (query_location rq))"
    by (cases "query_location rq") (simp_all add: parseLocation_any_def text_query_def)
  have "inputs (text_query rq) (lim_of (query_limit rq)) (parseLocation (query_location rq)) =
        Inr (text_inputs (bindings rq))"
    by (cases "query_q rq"; cases "query_category rq")
      (simp_all add: inputs_def text_inputs_def bindings_def Let_def text_query_def
        truthy_def or_null_def ToString_def)
  with lim loc show ?thesis
    by (simp add: get_map_feed_def map_feed_def Let_def)
qed

text \<open>On any query, a response of status 200 carries the literal \<^verbatim>\<open>0.01s\<close> as well.\<close>

lemma get_map_feed_generated_in:
  "fst (get_map_feed rq poolPromise) = 200 \<Longrightarrow>
   generated_in (snd (get_map_feed rq poolPromise)) = ''0.01s''"
  by (auto simp: get_map_feed_def failure_def split: sum.splits)




end
